theory Spec2Isabelle
  imports Main "HOL-Library.Word" "HOL-Library.Signed_Division"
begin

section \<open>Data model of the Ethereum listener\<close>

text \<open>
  The listener (package \<open>ethereum\<close>) polls the source chain, builds a snapshot of the
  stakers, diffs it against the snapshot of the previous epoch, submits the result to the
  destination chain and persists the snapshot and the block cursor.

  A Go function returning \<open>(v, error)\<close> is a pair \<open>(v, err)\<close> whose second component is
  \<open>None\<close> for \<open>nil\<close>. A run-time panic of Go (nil dereference, index out of range,
  integer division by zero) is the left injection of the result type.
\<close>

type_synonym byte = "8 word"
type_synonym bytes = "byte list"

datatype error = Error string
type_synonym err = "error option"

datatype panic = NilDereference | IndexOutOfRange | DivideByZero

text \<open>
  \<open>substrate.StakeInfo\<close>, as the listener fills it in. \<open>LockedBalance\<close> is a
  \<open>types.U128\<close>, which wraps a \<open>big.Int\<close> without truncating it; \<open>WorkCount\<close> is
  a 32-bit counter.
\<close>

record StakeInfo =
  Coinbase :: bytes
  WorkBase :: bytes
  IsWork :: bool
  LockedBalance :: int
  WorkCount :: "32 word"

type_synonym StakeInfos = "StakeInfo list"

text \<open>\<open>types.NewAccountID\<close> copies its argument into a 32-byte array.\<close>

definition NewAccountID :: "bytes \<Rightarrow> bytes" where
  "NewAccountID b = take 32 b @ replicate (32 - length b) 0"

text \<open>\<open>big.Int.Uint64\<close> and \<open>big.Int.Int64\<close>: the low 64 bits of the magnitude, the
  sign applied afterwards in the signed case.\<close>

definition Uint64 :: "int \<Rightarrow> 64 word" where
  "Uint64 x = word_of_int \<bar>x\<bar>"

definition Int64 :: "int \<Rightarrow> int" where
  "Int64 x = sint (if x < 0 then - (word_of_int \<bar>x\<bar>) else (word_of_int \<bar>x\<bar> :: 64 word))"

section \<open>Staker ranking\<close>

text \<open>
  Modelled from the spec: \<open>StakeInfos.LockedBalanceTop20\<close> is defined in package
  \<open>substrate\<close>, whose source is not among the source files of the listener; the
  listener only calls it. The specification describes it as the snapshot reduced to the top 20 records by
  \<open>lockedBalance\<close>, descending, ties broken by the original enumeration order (a stable
  sort), of length \<open>min(20, input length)\<close>.
\<close>

definition LockedBalanceTop20 :: "StakeInfos \<Rightarrow> StakeInfos" where
  "LockedBalanceTop20 s = take 20 (sort_key (\<lambda>r. - LockedBalance r) s)"

section \<open>Stake snapshot builder\<close>

text \<open>
  The contract binding \<open>nucypher.Nucypher\<close> is generated code, not among the source
  files of the listener; its answers are parameters. \<open>NewNucypher\<close> is the error of constructing the binding,
  \<open>GetStakersLength\<close> answers with a \<open>*big.Int\<close> (\<open>None\<close> for a nil pointer) and an
  error, \<open>Stakers i\<close> with an address and an error, \<open>StakerInfo a\<close> with the
  \<open>Value\<close> pointer of the returned struct and an error.
\<close>

record registry =
  NewNucypher :: err
  GetStakersLength :: "int option \<times> err"
  Stakers :: "int \<Rightarrow> bytes \<times> err"
  StakerInfo :: "bytes \<Rightarrow> int option \<times> err"

text \<open>
  The body of the \<open>for\<close> loop of \<open>GetStakeInfo\<close>, for the indices still to visit. Both
  errors are only logged: the loop goes on with the address that came with the error, and
  \<open>*info.Value\<close> dereferences the pointer that came with the second one.
\<close>

fun stakers_loop :: "registry \<Rightarrow> int list \<Rightarrow> StakeInfos \<Rightarrow> panic + StakeInfos" where
  "stakers_loop nc [] stakeInfos = Inr stakeInfos"
| "stakers_loop nc (i # is) stakeInfos =
     (case Stakers nc i of (staker, err1) \<Rightarrow>
        (case StakerInfo nc staker of
           (None, err2) \<Rightarrow> Inl NilDereference
         | (Some v, err2) \<Rightarrow>
             stakers_loop nc is
               (stakeInfos @
                [\<lparr>Coinbase = NewAccountID staker, WorkBase = staker, IsWork = True,
                  LockedBalance = v, WorkCount = 0\<rparr>])))"

definition GetStakeInfo :: "registry \<Rightarrow> panic + (StakeInfos \<times> err)" where
  "GetStakeInfo nc =
     (case NewNucypher nc of
        Some e \<Rightarrow> Inr ([], None)
      | None \<Rightarrow>
          (case GetStakersLength nc of
             (len, Some e) \<Rightarrow> Inr ([], None)
           | (None, None) \<Rightarrow> Inl NilDereference
           | (Some n, None) \<Rightarrow>
               (case stakers_loop nc [0 .. Int64 n sdiv 50 - 1] [] of
                  Inl p \<Rightarrow> Inl p
                | Inr stakeInfos \<Rightarrow> Inr (stakeInfos, None))))"

section \<open>Epoch synchronizer: the diff against the last snapshot\<close>

text \<open>
  The inner loop of \<open>syncStakeInfos\<close> compares \<open>li.WorkBase\<close> with every record of the
  current top 20; its \<open>continue\<close> goes to the next record of the inner loop, and nothing
  else is in its body.
\<close>

fun match_scan :: "StakeInfo \<Rightarrow> StakeInfos \<Rightarrow> unit" where
  "match_scan li [] = ()"
| "match_scan li (info # rest) =
     (if WorkBase li = WorkBase info then match_scan li rest else match_scan li rest)"

text \<open>The outer loop: after the inner one, \<open>li.IsWork = false\<close> and the append.\<close>

fun stopped_loop :: "StakeInfos \<Rightarrow> StakeInfos \<Rightarrow> StakeInfos \<Rightarrow> StakeInfos" where
  "stopped_loop [] top20StakeInfos stoppedStaker = stoppedStaker"
| "stopped_loop (li # rest) top20StakeInfos stoppedStaker =
     (case match_scan li top20StakeInfos of
        () \<Rightarrow> stopped_loop rest top20StakeInfos (stoppedStaker @ [li\<lparr>IsWork := False\<rparr>]))"

definition stoppedStaker :: "StakeInfos \<Rightarrow> StakeInfos \<Rightarrow> StakeInfos" where
  "stoppedStaker lastInfos top20StakeInfos = stopped_loop lastInfos top20StakeInfos []"

section \<open>Persistence layer\<close>

text \<open>
  The file system as the listener sees it: the content of every file, the directories
  made by \<open>os.MkdirAll\<close>, and the journal of the completed \<open>ioutil.WriteFile\<close> calls
  in the order they happened. The four fault tables say on which paths \<open>os.Stat\<close>
  (with an error other than "does not exist"), \<open>os.MkdirAll\<close>, \<open>ioutil.WriteFile\<close>
  and \<open>ioutil.ReadFile\<close> fail. A write that fails is taken to store nothing.
\<close>

record disk =
  files :: "string \<rightharpoonup> bytes"
  dirs :: "string set"
  journal :: "(string \<times> bytes) list"
  stat_fault :: "string \<rightharpoonup> error"
  mkdir_fault :: "string \<rightharpoonup> error"
  write_fault :: "string \<rightharpoonup> error"
  read_fault :: "string \<rightharpoonup> error"

datatype stat = Exists | NotExist | StatError error

definition os_Stat :: "disk \<Rightarrow> string \<Rightarrow> stat" where
  "os_Stat d file =
     (case stat_fault d file of
        Some e \<Rightarrow> StatError e
      | None \<Rightarrow> (case files d file of Some content \<Rightarrow> Exists | None \<Rightarrow> NotExist))"

text \<open>\<open>filepath.Split\<close>: the directory is the path up to and including the last
  separator.\<close>

definition Split_dir :: "string \<Rightarrow> string" where
  "Split_dir file = rev (dropWhile (\<lambda>c. c \<noteq> CHR ''/'') (rev file))"

definition os_MkdirAll :: "disk \<Rightarrow> string \<Rightarrow> disk \<times> err" where
  "os_MkdirAll d dir =
     (case mkdir_fault d dir of
        Some e \<Rightarrow> (d, Some e)
      | None \<Rightarrow> (d\<lparr>dirs := insert dir (dirs d)\<rparr>, None))"

definition ioutil_WriteFile :: "disk \<Rightarrow> string \<Rightarrow> bytes \<Rightarrow> disk \<times> err" where
  "ioutil_WriteFile d file content =
     (case write_fault d file of
        Some e \<Rightarrow> (d, Some e)
      | None \<Rightarrow>
          (d\<lparr>files := (files d)(file \<mapsto> content), journal := journal d @ [(file, content)]\<rparr>,
           None))"

definition ioutil_ReadFile :: "disk \<Rightarrow> string \<Rightarrow> bytes \<times> err" where
  "ioutil_ReadFile d file =
     (case read_fault d file of
        Some e \<Rightarrow> ([], Some e)
      | None \<Rightarrow>
          (case files d file of
             Some content \<Rightarrow> (content, None)
           | None \<Rightarrow> ([], Some (Error ''no such file or directory''))))"

definition fileExists :: "disk \<Rightarrow> string \<Rightarrow> bool \<times> err" where
  "fileExists d fileName =
     (case os_Stat d fileName of
        NotExist \<Rightarrow> (False, None)
      | StatError e \<Rightarrow> (False, Some e)
      | Exists \<Rightarrow> (True, None))"

text \<open>
  The serializer is go-ethereum's \<open>rlp\<close> package, a library outside the repository:
  \<open>rlp.EncodeToBytes\<close> and \<open>rlp.DecodeBytes\<close> at type \<open>[]*substrate.StakeInfo\<close> are
  parameters of the persistence functions.
\<close>

record codec =
  EncodeToBytes :: "StakeInfos \<Rightarrow> bytes \<times> err"
  DecodeBytes :: "bytes \<Rightarrow> StakeInfos \<times> err"

definition ReadStakeInfos :: "codec \<Rightarrow> disk \<Rightarrow> string \<Rightarrow> StakeInfos \<times> err" where
  "ReadStakeInfos rlp d file =
     (case fileExists d file of
        (ex, Some e) \<Rightarrow> ([], Some e)
      | (False, None) \<Rightarrow> ([], None)
      | (True, None) \<Rightarrow>
          (case ioutil_ReadFile d file of
             (content, Some e) \<Rightarrow> ([], Some e)
           | (content, None) \<Rightarrow>
               if length content = 0 then ([], None)
               else (case DecodeBytes rlp content of
                       (infos, Some e) \<Rightarrow> ([], Some e)
                     | (infos, None) \<Rightarrow> (infos, None))))"

definition WriteStakeInfos :: "codec \<Rightarrow> disk \<Rightarrow> string \<Rightarrow> StakeInfos \<Rightarrow> disk \<times> err" where
  "WriteStakeInfos rlp d file infos =
     (case (case os_Stat d file of
              NotExist \<Rightarrow> os_MkdirAll d (Split_dir file)
            | Exists \<Rightarrow> (d, None)
            | StatError e \<Rightarrow> (d, None)) of
        (d1, Some e) \<Rightarrow> (d1, Some e)
      | (d1, None) \<Rightarrow>
          (case EncodeToBytes rlp infos of
             (content, Some e) \<Rightarrow> (d1, Some e)
           | (content, None) \<Rightarrow> ioutil_WriteFile d1 file content))"

text \<open>\<open>[]byte(number.String())\<close>: the ASCII decimal digits of the number, a minus sign
  first when it is negative.\<close>

fun decimal :: "nat \<Rightarrow> bytes" where
  "decimal n =
     (if n < 10 then [of_nat (48 + n)] else decimal (n div 10) @ [of_nat (48 + n mod 10)])"

declare decimal.simps [simp del]

definition big_String :: "int \<Rightarrow> bytes" where
  "big_String x = (if x < 0 then [45] else []) @ decimal (nat \<bar>x\<bar>)"

definition WriteLatestBlock :: "disk \<Rightarrow> string \<Rightarrow> int \<Rightarrow> disk \<times> err" where
  "WriteLatestBlock d file number =
     (case (case os_Stat d file of
              NotExist \<Rightarrow> os_MkdirAll d (Split_dir file)
            | Exists \<Rightarrow> (d, None)
            | StatError e \<Rightarrow> (d, None)) of
        (d1, Some e) \<Rightarrow> (d1, Some e)
      | (d1, None) \<Rightarrow> ioutil_WriteFile d1 file (big_String number))"

section \<open>Epoch synchronizer\<close>

text \<open>
  What a \<open>Listener\<close> holds and reaches during one call: the two paths, the epoch length
  (\<open>uint64(params.EpochLength)\<close>; package \<open>params\<close> is not among the source files of the listener), the
  serializer, the registry of the source chain, the answer of \<open>Subconn.SubmitTx\<close> to a
  payload, and the answer of \<open>Client.FilterLogs\<close>.
\<close>

record eth_log =
  Topics :: "bytes list"
  Data :: bytes

record listener =
  LatestBlockPath :: string
  LastStakeInfoPath :: string
  EpochLength :: "64 word"
  rlp :: codec
  nucypher :: registry
  SubmitTx :: "StakeInfos \<Rightarrow> err"
  FilterLogs :: "eth_log list \<times> err"

definition syncStakeInfos :: "listener \<Rightarrow> disk \<Rightarrow> int \<Rightarrow> panic + (disk \<times> err)" where
  "syncStakeInfos l d latestBlock =
     (if EpochLength l = 0 then Inl DivideByZero
      else if Uint64 latestBlock mod EpochLength l \<noteq> 0 then Inr (d, None)
      else
        (case GetStakeInfo (nucypher l) of
           Inl p \<Rightarrow> Inl p
         | Inr (stakeInfos, Some e) \<Rightarrow> Inr (d, Some e)
         | Inr (stakeInfos, None) \<Rightarrow>
             (case ReadStakeInfos (rlp l) d (LastStakeInfoPath l) of
                (lastInfos, Some e) \<Rightarrow> Inr (d, Some e)
              | (lastInfos, None) \<Rightarrow>
                  (case SubmitTx l
                          (LockedBalanceTop20 stakeInfos @
                           stoppedStaker lastInfos (LockedBalanceTop20 stakeInfos)) of
                     Some e \<Rightarrow> Inr (d, Some e)
                   | None \<Rightarrow>
                       (case WriteStakeInfos (rlp l) d (LastStakeInfoPath l)
                               (LockedBalanceTop20 stakeInfos) of
                          (d1, Some e) \<Rightarrow> Inr (d1, Some e)
                        | (d1, None) \<Rightarrow>
                            (case WriteLatestBlock d1 (LatestBlockPath l) latestBlock of
                               (d2, Some e) \<Rightarrow> Inr (d2, Some e)
                             | (d2, None) \<Rightarrow> Inr (d2, None)))))))"

section \<open>Event scanner and the deposit-event epoch path\<close>

text \<open>\<open>common.BytesToHash(b).Big()\<close>: the last 32 bytes of \<open>b\<close>, read big-endian.\<close>

definition be_int :: "bytes \<Rightarrow> int" where
  "be_int b = foldl (\<lambda>acc x. acc * 256 + uint x) 0 b"




section \<open>Block poller\<close>

text \<open>
  The state of the loop of \<open>PollBlocks\<close>: the two local variables, the disk, and the
  trace of what the loop did. One iteration meets one \<open>tick\<close> of the environment: whether
  a value is waiting on \<open>l.Stop\<close> at the \<open>select\<close>, the answer of
  \<open>Ethconn.LatestBlock\<close> (a \<open>*big.Int\<close> and an error), and the listener with the
  chain answers of that moment. Whether the send \<open>l.Stop <- struct{}{}\<close> completes
  depends on the buffer of the channel and on who reads it, both outside this file: the
  tick says so (\<open>stop_send_completes\<close>). A send that completes is the event
  \<open>StopSent\<close>; one that does not leaves the loop blocked for ever.
\<close>

datatype event =
    FetchFailed
  | Slept
  | RetriesExceeded
  | StopSent
  | Processing int

record poll_state =
  currentBlock :: int
  retry :: int
  store :: disk
  trace :: "event list"

record tick =
  stop_pending :: bool
  stop_send_completes :: bool
  LatestBlock :: "int option \<times> err"
  chain :: listener

datatype step = Continue poll_state | Return poll_state err | Blocked poll_state

definition poll_iteration ::
    "int \<Rightarrow> int \<Rightarrow> tick \<Rightarrow> poll_state \<Rightarrow> panic + step" where
  "poll_iteration BlockRetryLimit BlockConfirmations t s =
     (if stop_pending t then Inr (Return s (Some (Error ''polling terminated'')))
      else if retry s = 0 then
        (if stop_send_completes t
         then Inr (Return (s\<lparr>trace := trace s @ [RetriesExceeded, StopSent]\<rparr>) None)
         else Inr (Blocked (s\<lparr>trace := trace s @ [RetriesExceeded]\<rparr>)))
      else
        (case LatestBlock t of
           (latestBlock, Some e) \<Rightarrow>
             Inr (Continue (s\<lparr>retry := retry s - 1, trace := trace s @ [FetchFailed, Slept]\<rparr>))
         | (None, None) \<Rightarrow> Inl NilDereference
         | (Some latestBlock, None) \<Rightarrow>
             if latestBlock - currentBlock s < BlockConfirmations then
               Inr (Continue (s\<lparr>trace := trace s @ [Slept]\<rparr>))
             else
               (case syncStakeInfos (chain t) (store s) (currentBlock s) of
                  Inl p \<Rightarrow> Inl p
                | Inr (d, Some e) \<Rightarrow>
                    if stop_send_completes t
                    then Inr (Return
                               (s\<lparr>store := d,
                                  trace := trace s @ [Processing (currentBlock s), StopSent]\<rparr>)
                               (Some e))
                    else Inr (Blocked
                               (s\<lparr>store := d,
                                  trace := trace s @ [Processing (currentBlock s)]\<rparr>))
                | Inr (d, None) \<Rightarrow>
                    Inr (Continue
                          (s\<lparr>currentBlock := currentBlock s + 1, retry := BlockRetryLimit,
                             store := d,
                             trace := trace s @ [Processing (currentBlock s)]\<rparr>)))))"

text \<open>
  The loop itself runs for as long as the environment goes on; over a finite list of
  ticks the result is \<open>None\<close> when the loop has not returned by the end of the list, or
  is blocked and never will.
\<close>

fun poll_loop ::
    "int \<Rightarrow> int \<Rightarrow> tick list \<Rightarrow> poll_state \<Rightarrow> (panic + poll_state \<times> err) option" where
  "poll_loop BlockRetryLimit BlockConfirmations [] s = None"
| "poll_loop BlockRetryLimit BlockConfirmations (t # ts) s =
     (case poll_iteration BlockRetryLimit BlockConfirmations t s of
        Inl p \<Rightarrow> Some (Inl p)
      | Inr (Return s1 e) \<Rightarrow> Some (Inr (s1, e))
      | Inr (Blocked s1) \<Rightarrow> None
      | Inr (Continue s1) \<Rightarrow> poll_loop BlockRetryLimit BlockConfirmations ts s1)"

definition PollBlocks ::
    "int \<Rightarrow> int \<Rightarrow> int \<Rightarrow> disk \<Rightarrow> tick list \<Rightarrow> (panic + poll_state \<times> err) option" where
  "PollBlocks BlockRetryLimit BlockConfirmations StartBlock d ticks =
     poll_loop BlockRetryLimit BlockConfirmations ticks
       \<lparr>currentBlock = StartBlock, retry = BlockRetryLimit, store = d, trace = []\<rparr>"

section \<open>An instance of the serializer\<close>

text \<open>
  The examples below run the persistence functions on a concrete serializer. This one
  follows the rules of RLP: a single byte below 128 stands for itself, any other string
  and every list carries a header with the length of its payload. A record is the list
  of its five fields in their order, the balance a list of one big-endian number. The
  general theorems take the serializer as a parameter and do not depend on this instance.
\<close>

fun be_bytes :: "nat \<Rightarrow> bytes" where
  "be_bytes n = (if n = 0 then [] else be_bytes (n div 256) @ [of_nat (n mod 256)])"

declare be_bytes.simps [simp del]

definition rlp_header :: "nat \<Rightarrow> nat \<Rightarrow> bytes" where
  "rlp_header base n =
     (if n < 56 then [of_nat (base + n)]
      else of_nat (base + 55 + length (be_bytes n)) # be_bytes n)"

definition rlp_string :: "bytes \<Rightarrow> bytes" where
  "rlp_string b =
     (if length b = 1 \<and> hd b < 128 then b else rlp_header 128 (length b) @ b)"

definition rlp_list :: "bytes list \<Rightarrow> bytes" where
  "rlp_list items = rlp_header 192 (length (concat items)) @ concat items"

definition rlp_StakeInfo :: "StakeInfo \<Rightarrow> bytes" where
  "rlp_StakeInfo r =
     rlp_list
       [rlp_string (Coinbase r), rlp_string (WorkBase r),
        rlp_string (if IsWork r then [1] else []),
        rlp_list [rlp_string (be_bytes (nat (LockedBalance r)))],
        rlp_string (be_bytes (unat (WorkCount r)))]"

definition rlp_EncodeToBytes :: "StakeInfos \<Rightarrow> bytes \<times> err" where
  "rlp_EncodeToBytes infos =
     (if list_ex (\<lambda>r. LockedBalance r < 0) infos
      then ([], Some (Error ''rlp: cannot encode negative big.Int''))
      else (rlp_list (map rlp_StakeInfo infos), None))"

text \<open>Reading back: \<open>rlp_Split\<close> cuts the first value off its input and says whether it
  is a list; the records are read one after the other, the fuel bounding their number.\<close>

definition rlp_payload :: "bool \<Rightarrow> nat \<Rightarrow> bytes \<Rightarrow> (bool \<times> bytes \<times> bytes) option" where
  "rlp_payload is_list n b =
     (if length b < n then None else Some (is_list, take n b, drop n b))"

definition rlp_Split :: "bytes \<Rightarrow> (bool \<times> bytes \<times> bytes) option" where
  "rlp_Split b =
     (case b of
        [] \<Rightarrow> None
      | x # xs \<Rightarrow>
          if x < 128 then Some (False, [x], xs)
          else if x < 184 then rlp_payload False (unat x - 128) xs
          else if x < 192 then
            (if length xs < unat x - 183 then None
             else rlp_payload False (nat (be_int (take (unat x - 183) xs))) (drop (unat x - 183) xs))
          else if x < 248 then rlp_payload True (unat x - 192) xs
          else
            (if length xs < unat x - 247 then None
             else rlp_payload True (nat (be_int (take (unat x - 247) xs))) (drop (unat x - 247) xs)))"

definition rlp_field :: "bool \<Rightarrow> bytes \<Rightarrow> (bytes \<times> bytes) option" where
  "rlp_field is_list b =
     (case rlp_Split b of
        None \<Rightarrow> None
      | Some (k, content, rest) \<Rightarrow> if k = is_list then Some (content, rest) else None)"

definition decode_StakeInfo :: "bytes \<Rightarrow> StakeInfo option" where
  "decode_StakeInfo b =
     (case rlp_field False b of None \<Rightarrow> None | Some (coinbase, b1) \<Rightarrow>
      (case rlp_field False b1 of None \<Rightarrow> None | Some (workBase, b2) \<Rightarrow>
      (case rlp_field False b2 of None \<Rightarrow> None | Some (isWork, b3) \<Rightarrow>
      (case rlp_field True b3 of None \<Rightarrow> None | Some (u128, b4) \<Rightarrow>
      (case rlp_field False u128 of None \<Rightarrow> None | Some (balance, b5) \<Rightarrow>
      (case rlp_field False b4 of None \<Rightarrow> None | Some (workCount, b6) \<Rightarrow>
         if b5 = [] \<and> b6 = [] \<and> (isWork = [1] \<or> isWork = [])
         then Some \<lparr>Coinbase = coinbase, WorkBase = workBase, IsWork = (isWork = [1]),
                     LockedBalance = be_int balance, WorkCount = word_of_int (be_int workCount)\<rparr>
         else None))))))"

fun decode_records :: "nat \<Rightarrow> bytes \<Rightarrow> StakeInfos option" where
  "decode_records 0 b = (if b = [] then Some [] else None)"
| "decode_records (Suc fuel) b =
     (if b = [] then Some []
      else (case rlp_field True b of
              None \<Rightarrow> None
            | Some (content, rest) \<Rightarrow>
                (case decode_StakeInfo content of
                   None \<Rightarrow> None
                 | Some r \<Rightarrow>
                     (case decode_records fuel rest of
                        None \<Rightarrow> None
                      | Some rs \<Rightarrow> Some (r # rs)))))"

definition rlp_DecodeBytes :: "bytes \<Rightarrow> StakeInfos \<times> err" where
  "rlp_DecodeBytes b =
     (case rlp_field True b of
        None \<Rightarrow> ([], Some (Error ''rlp: expected input list''))
      | Some (content, rest) \<Rightarrow>
          if rest \<noteq> [] then ([], Some (Error ''rlp: input contains more than one value''))
          else (case decode_records (length content) content of
                  None \<Rightarrow> ([], Some (Error ''rlp: malformed element''))
                | Some infos \<Rightarrow> (infos, None)))"

definition rlp_codec :: codec where
  "rlp_codec = \<lparr>EncodeToBytes = rlp_EncodeToBytes, DecodeBytes = rlp_DecodeBytes\<rparr>"

section \<open>A small world for the examples\<close>

text \<open>
  A registry of 100 entries, of which the builder visits \<open>100 / 50 = 2\<close>; a destination
  chain that accepts every payload; an empty disk without faults; epochs of 1000 blocks.
\<close>

definition example_registry :: registry where
  "example_registry =
     \<lparr>NewNucypher = None, GetStakersLength = (Some 100, None),
      Stakers = (\<lambda>i. (replicate 20 (word_of_int (i + 1)), None)),
      StakerInfo = (\<lambda>a. (Some (500 + uint (hd a)), None))\<rparr>"

definition example_listener :: listener where
  "example_listener =
     \<lparr>LatestBlockPath = ''/data/latest_block'', LastStakeInfoPath = ''/data/stake_infos'',
      EpochLength = 1000, rlp = rlp_codec, nucypher = example_registry,
      SubmitTx = (\<lambda>infos. None), FilterLogs = ([], None)\<rparr>"

definition example_disk :: disk where
  "example_disk =
     \<lparr>files = Map.empty, dirs = {}, journal = [], stat_fault = Map.empty,
      mkdir_fault = Map.empty, write_fault = Map.empty, read_fault = Map.empty\<rparr>"

section \<open>Properties\<close>

subsection \<open>The diff against the last snapshot\<close>

text \<open>The stopped list is the whole last snapshot, every record marked inactive.\<close>

lemma stopped_loop_eq:
  "stopped_loop lastInfos top20 acc = acc @ map (\<lambda>li. li\<lparr>IsWork := False\<rparr>) lastInfos"
  by (induction lastInfos arbitrary: acc) (simp_all split: unit.split)

text \<open>
  C1 (diff completeness). The claim wants a record of the last snapshot reported as
  stopped exactly when its \<open>workBase\<close> is absent from the current top 20. With one staker
  whose \<open>workBase\<close> is \<open>[1]\<close> in both snapshots, the stopped list of the code still holds
  that staker, marked inactive: the \<open>continue\<close> of the inner loop does not skip the append.
\<close>

theorem stoppedStaker_reports_present_staker:
  "stoppedStaker
     [\<lparr>Coinbase = [1], WorkBase = [1], IsWork = True, LockedBalance = 5, WorkCount = 0\<rparr>]
     [\<lparr>Coinbase = [1], WorkBase = [1], IsWork = True, LockedBalance = 5, WorkCount = 0\<rparr>]
   = [\<lparr>Coinbase = [1], WorkBase = [1], IsWork = False, LockedBalance = 5, WorkCount = 0\<rparr>]"
  by (simp add: stoppedStaker_def split: unit.split)

subsection \<open>Staker ranking\<close>

lemma filter_take_prefix: "\<exists>m. filter P (take n xs) = take m (filter P xs)"
proof (induction xs arbitrary: n)
  case Nil
  show ?case by simp
next
  case (Cons x xs)
  show ?case
  proof (cases n)
    case 0
    then have "filter P (take n (x # xs)) = take 0 (filter P (x # xs))" by simp
    then show ?thesis by blast
  next
    case (Suc k)
    obtain m where m: "filter P (take k xs) = take m (filter P xs)"
      using Cons.IH by blast
    show ?thesis
    proof (cases "P x")
      case True
      with Suc m have "filter P (take n (x # xs)) = take (Suc m) (filter P (x # xs))"
        by simp
      then show ?thesis by blast
    next
      case False
      with Suc m have "filter P (take n (x # xs)) = take m (filter P (x # xs))"
        by simp
      then show ?thesis by blast
    qed
  qed
qed

lemma LockedBalanceTop20_idem:
  "LockedBalanceTop20 (LockedBalanceTop20 S) = LockedBalanceTop20 S"
proof -
  let ?f = "\<lambda>r. - LockedBalance r"
  have "sorted (map ?f (take 20 (sort_key ?f S)))"
    by (simp flip: take_map)
  then have "sort_key ?f (take 20 (sort_key ?f S)) = take 20 (sort_key ?f S)"
    by (rule sort_key_id_if_sorted)
  then show ?thesis by (simp add: LockedBalanceTop20_def)
qed

lemma LockedBalanceTop20_descending:
  "sorted_wrt (\<ge>) (map LockedBalance (LockedBalanceTop20 S))"
proof -
  have "sorted (map (\<lambda>r. - LockedBalance r) (sort_key (\<lambda>r. - LockedBalance r) S))"
    by simp
  then have "sorted_wrt (\<ge>) (map LockedBalance (sort_key (\<lambda>r. - LockedBalance r) S))"
    by (simp add: sorted_wrt_map)
  then show ?thesis
    by (simp add: LockedBalanceTop20_def flip: take_map)
qed

lemma LockedBalanceTop20_stable:
  "\<exists>m. filter (\<lambda>r. LockedBalance r = b) (LockedBalanceTop20 S) =
        take m (filter (\<lambda>r. LockedBalance r = b) S)"
proof -
  let ?f = "\<lambda>r. - LockedBalance r"
  have eq: "(\<lambda>r. LockedBalance r = b) = (\<lambda>r. ?f r = - b)" by auto
  obtain m where
    "filter (\<lambda>r. ?f r = - b) (take 20 (sort_key ?f S)) =
     take m (filter (\<lambda>r. ?f r = - b) (sort_key ?f S))"
    using filter_take_prefix by blast
  then have
    "filter (\<lambda>r. ?f r = - b) (take 20 (sort_key ?f S)) =
     take m (filter (\<lambda>r. ?f r = - b) S)"
    by (simp only: sort_key_stable)
  then show ?thesis unfolding LockedBalanceTop20_def eq by blast
qed

text \<open>
  C7 (ranking is total, deterministic and idempotent). For every snapshot \<open>S\<close>, the
  empty one included, the ranking is a value of the function (no error, no panic:
  \<open>LockedBalanceTop20\<close> is a total function of its argument alone); ranking twice is
  ranking once; the result has \<open>min 20 |S|\<close> records, in descending order of
  \<open>LockedBalance\<close>; and for every balance \<open>b\<close> the records of the result with that
  balance are an initial segment of the records of \<open>S\<close> with that balance, in the order
  of \<open>S\<close>.
\<close>

theorem LockedBalanceTop20_ranking:
  "LockedBalanceTop20 [] = []
   \<and> LockedBalanceTop20 (LockedBalanceTop20 S) = LockedBalanceTop20 S
   \<and> length (LockedBalanceTop20 S) = min 20 (length S)
   \<and> sorted_wrt (\<ge>) (map LockedBalance (LockedBalanceTop20 S))
   \<and> (\<forall>b. \<exists>m. filter (\<lambda>r. LockedBalance r = b) (LockedBalanceTop20 S) =
               take m (filter (\<lambda>r. LockedBalance r = b) S))"
proof -
  have "LockedBalanceTop20 [] = []"
    by (simp add: LockedBalanceTop20_def)
  moreover have "length (LockedBalanceTop20 S) = min 20 (length S)"
    by (simp add: LockedBalanceTop20_def)
  ultimately show ?thesis
    using LockedBalanceTop20_idem LockedBalanceTop20_descending LockedBalanceTop20_stable
    by blast
qed

subsection \<open>Stake snapshot builder\<close>


text \<open>
  C9 (per-item failure). The claim wants the item of a failed lookup left out of the
  snapshot. Take a registry of 100 entries (two are visited), where the lookup of the
  address at index 0 fails and hands back the zero address with its error, and the other
  lookups succeed. The snapshot built has two records: the first one is a record for the
  zero address, made from the failed lookup; only the error is logged, and no
  \<open>continue\<close> follows the log.
\<close>

theorem GetStakeInfo_keeps_failed_index:
  "GetStakeInfo
     \<lparr>NewNucypher = None, GetStakersLength = (Some 100, None),
      Stakers = (\<lambda>i. if i = 0 then (replicate 20 0, Some (Error ''rpc timeout''))
                      else (replicate 20 1, None)),
      StakerInfo = (\<lambda>a. if a = replicate 20 0 then (Some 0, None) else (Some 7, None))\<rparr>
   = Inr ([\<lparr>Coinbase = replicate 32 0, WorkBase = replicate 20 0, IsWork = True,
             LockedBalance = 0, WorkCount = 0\<rparr>,
           \<lparr>Coinbase = replicate 20 1 @ replicate 12 0, WorkBase = replicate 20 1,
             IsWork = True, LockedBalance = 7, WorkCount = 0\<rparr>],
          None)"
  by code_simp

text \<open>
  When it is the lookup of the staker's info that fails and the struct handed back with
  the error has a nil \<open>Value\<close>, the dereference \<open>*info.Value\<close> panics and the whole
  build is lost.
\<close>

lemma GetStakeInfo_nil_value_panics:
  "GetStakeInfo
     \<lparr>NewNucypher = None, GetStakersLength = (Some 100, None),
      Stakers = (\<lambda>i. (replicate 20 1, None)),
      StakerInfo = (\<lambda>a. (None, Some (Error ''rpc timeout'')))\<rparr>
   = Inl NilDereference"
  by (simp add: GetStakeInfo_def Int64_def upto.simps)



subsection \<open>Epoch synchronizer: submission failure\<close>

text \<open>
  C3 (no commit when the submission fails). At an epoch boundary, when the snapshot was
  built, the last snapshot was read and \<open>SubmitTx\<close> answers with an error, the call
  returns that error and the disk it was given: no file was written, no directory made,
  the journal of writes is the one before the call.
\<close>

theorem syncStakeInfos_submit_failure_no_commit:
  assumes "EpochLength l \<noteq> 0" and "Uint64 latestBlock mod EpochLength l = 0"
    and "GetStakeInfo (nucypher l) = Inr (stakeInfos, None)"
    and "ReadStakeInfos (rlp l) d (LastStakeInfoPath l) = (lastInfos, None)"
    and "SubmitTx l
           (LockedBalanceTop20 stakeInfos @
            stoppedStaker lastInfos (LockedBalanceTop20 stakeInfos)) = Some e"
  shows "syncStakeInfos l d latestBlock = Inr (d, Some e)"
  using assms by (simp add: syncStakeInfos_def)

theorem syncStakeInfos_submit_failure_no_commit_witness:
  "syncStakeInfos
     (example_listener\<lparr>SubmitTx := (\<lambda>infos. Some (Error ''tx rejected''))\<rparr>)
     example_disk 1000
   = Inr (example_disk, Some (Error ''tx rejected''))"
proof -
  let ?l = "example_listener\<lparr>SubmitTx := (\<lambda>infos. Some (Error ''tx rejected''))\<rparr>"
  let ?S = "[\<lparr>Coinbase = replicate 20 1 @ replicate 12 0, WorkBase = replicate 20 1,
               IsWork = True, LockedBalance = 501, WorkCount = 0\<rparr>,
             \<lparr>Coinbase = replicate 20 2 @ replicate 12 0, WorkBase = replicate 20 2,
               IsWork = True, LockedBalance = 502, WorkCount = 0\<rparr>]"
  have h1: "EpochLength ?l \<noteq> 0"
    by (simp add: example_listener_def)
  have h2: "Uint64 1000 mod EpochLength ?l = 0"
    by (simp add: example_listener_def Uint64_def)
  have h3: "GetStakeInfo (nucypher ?l) = Inr (?S, None)"
    by code_simp
  have h4: "ReadStakeInfos (rlp ?l) example_disk (LastStakeInfoPath ?l) = ([], None)"
    by code_simp
  have h5: "SubmitTx ?l (LockedBalanceTop20 ?S @ stoppedStaker [] (LockedBalanceTop20 ?S))
            = Some (Error ''tx rejected'')"
    by simp
  show ?thesis
    by (rule syncStakeInfos_submit_failure_no_commit [OF h1 h2 h3 h4 h5])
qed

subsection \<open>Deposit-event epoch path\<close>





subsection \<open>Block poller\<close>

text \<open>
  C5 (confirmation gating). In an iteration that is not stopped, has retries left and
  fetched the latest height \<open>L\<close>: when \<open>L - h < D\<close> the iteration only sleeps, the
  height, the retry budget and the disk stay as they were and \<open>syncStakeInfos\<close> is not
  called; when \<open>D \<le> L - h\<close> the iteration calls \<open>syncStakeInfos\<close> on height \<open>h\<close>
  and goes on from its result.
\<close>

theorem poll_iteration_confirmation_gating:
  assumes "\<not> stop_pending t" and "retry s \<noteq> 0" and "LatestBlock t = (Some L, None)"
  shows "(L - currentBlock s < D \<longrightarrow>
            poll_iteration R D t s = Inr (Continue (s\<lparr>trace := trace s @ [Slept]\<rparr>)))
       \<and> (D \<le> L - currentBlock s \<longrightarrow>
            poll_iteration R D t s =
              (case syncStakeInfos (chain t) (store s) (currentBlock s) of
                 Inl p \<Rightarrow> Inl p
               | Inr (d, Some e) \<Rightarrow>
                   if stop_send_completes t
                   then Inr (Return
                              (s\<lparr>store := d,
                                 trace := trace s @ [Processing (currentBlock s), StopSent]\<rparr>)
                              (Some e))
                   else Inr (Blocked
                              (s\<lparr>store := d,
                                 trace := trace s @ [Processing (currentBlock s)]\<rparr>))
               | Inr (d, None) \<Rightarrow>
                   Inr (Continue
                         (s\<lparr>currentBlock := currentBlock s + 1, retry := R, store := d,
                            trace := trace s @ [Processing (currentBlock s)]\<rparr>))))"
  using assms by (simp add: poll_iteration_def)

theorem poll_iteration_confirmation_gating_witness:
  "poll_iteration 5 12
     \<lparr>stop_pending = False, stop_send_completes = True, LatestBlock = (Some (1001 + 12 - 1), None), chain = example_listener\<rparr>
     \<lparr>currentBlock = 1001, retry = 5, store = example_disk, trace = []\<rparr>
   = Inr (Continue \<lparr>currentBlock = 1001, retry = 5, store = example_disk, trace = [Slept]\<rparr>)
   \<and> poll_iteration 5 12
     \<lparr>stop_pending = False, stop_send_completes = True, LatestBlock = (Some (1001 + 12), None), chain = example_listener\<rparr>
     \<lparr>currentBlock = 1001, retry = 5, store = example_disk, trace = []\<rparr>
   = Inr (Continue
           \<lparr>currentBlock = 1002, retry = 5, store = example_disk, trace = [Processing 1001]\<rparr>)"
proof -
  have sync: "syncStakeInfos example_listener example_disk 1001 = Inr (example_disk, None)"
    by (simp add: syncStakeInfos_def example_listener_def Uint64_def)
  show ?thesis
    using
      poll_iteration_confirmation_gating
        [of "\<lparr>stop_pending = False, stop_send_completes = True, LatestBlock = (Some (1001 + 12 - 1), None),
               chain = example_listener\<rparr>"
            "\<lparr>currentBlock = 1001, retry = 5, store = example_disk, trace = []\<rparr>"
            "1001 + 12 - 1" 12 5]
      poll_iteration_confirmation_gating
        [of "\<lparr>stop_pending = False, stop_send_completes = True, LatestBlock = (Some (1001 + 12), None),
               chain = example_listener\<rparr>"
            "\<lparr>currentBlock = 1001, retry = 5, store = example_disk, trace = []\<rparr>"
            "1001 + 12" 12 5]
    by (simp add: sync)
qed

text \<open>
  A run of iterations whose fetch of the latest block fails, none of them with a stop
  request pending, only counts the budget down: the loop goes on from the same height and
  disk, whatever ticks follow.
\<close>

lemma poll_loop_fetch_failures:
  assumes "\<forall>t \<in> set fails. \<not> stop_pending t \<and> snd (LatestBlock t) \<noteq> None"
    and "retry s = int (length fails)"
  shows "poll_loop R D (fails @ ts) s =
         poll_loop R D ts
           (s\<lparr>retry := 0,
              trace := trace s @ concat (replicate (length fails) [FetchFailed, Slept])\<rparr>)"
  using assms
proof (induction fails arbitrary: s)
  case Nil
  then have "s\<lparr>retry := 0, trace := trace s\<rparr> = s" by (cases s) simp
  then show ?case by simp
next
  case (Cons f fails)
  let ?s1 = "s\<lparr>retry := retry s - 1, trace := trace s @ [FetchFailed, Slept]\<rparr>"
  from Cons.prems have f: "\<not> stop_pending f" "snd (LatestBlock f) \<noteq> None" "retry s \<noteq> 0"
    by simp_all
  then have step: "poll_iteration R D f s = Inr (Continue ?s1)"
    by (cases "LatestBlock f") (auto simp: poll_iteration_def split: option.splits)
  have "poll_loop R D (fails @ ts) ?s1 =
        poll_loop R D ts
          (?s1\<lparr>retry := 0,
                trace := trace ?s1 @ concat (replicate (length fails) [FetchFailed, Slept])\<rparr>)"
    using Cons.prems by (intro Cons.IH) simp_all
  with step show ?case by simp
qed

text \<open>The iteration met with an empty budget: what it does depends on the tick alone.\<close>

lemma poll_loop_exhausted:
  assumes "retry s = 0"
  shows "poll_loop R D (t # rest) s =
         (if stop_pending t then Some (Inr (s, Some (Error ''polling terminated'')))
          else if stop_send_completes t
          then Some (Inr (s\<lparr>trace := trace s @ [RetriesExceeded, StopSent]\<rparr>, None))
          else None)"
  using assms by (simp add: poll_iteration_def)

lemma poll_iteration_success_resets:
  assumes "\<not> stop_pending t" and "retry s \<noteq> 0" and "LatestBlock t = (Some L, None)"
    and "D \<le> L - currentBlock s"
    and "syncStakeInfos (chain t) (store s) (currentBlock s) = Inr (d, None)"
  shows "poll_iteration R D t s =
         Inr (Continue
               (s\<lparr>currentBlock := currentBlock s + 1, retry := R, store := d,
                  trace := trace s @ [Processing (currentBlock s)]\<rparr>))"
  using assms by (simp add: poll_iteration_def)

text \<open>
  C6 (retry exhaustion), as the code has it. From a full budget \<open>R\<close>, after \<open>R\<close>
  iterations in a row whose fetch of the latest block fails, the budget is 0 and the
  height and the disk are the ones the run started from. What the next iteration does
  is then fixed by its tick, whatever ticks come after it: with a stop request pending the
  loop returns "polling terminated"; otherwise it logs that the retries are exceeded and
  sends on \<open>l.Stop\<close>, and it returns nil when that send completes and never returns when
  it does not. No height is processed in any of the three cases. And an iteration that
  fetches the latest block, finds the height confirmed and gets nil from
  \<open>syncStakeInfos\<close> moves to the next height with the budget set back to \<open>R\<close>.
\<close>

theorem poll_loop_retry_exhaustion:
  assumes "0 \<le> R" and "retry s = R" and "length fails = nat R"
    and "\<forall>t \<in> set fails. \<not> stop_pending t \<and> snd (LatestBlock t) \<noteq> None"
  shows "poll_loop R D (fails @ t # rest) s =
           (if stop_pending t
            then Some (Inr (s\<lparr>retry := 0,
                              trace := trace s @ concat (replicate (nat R) [FetchFailed, Slept])\<rparr>,
                            Some (Error ''polling terminated'')))
            else if stop_send_completes t
            then Some (Inr (s\<lparr>retry := 0,
                              trace := trace s @ concat (replicate (nat R) [FetchFailed, Slept])
                                       @ [RetriesExceeded, StopSent]\<rparr>,
                            None))
            else None)
         \<and> (\<forall>t1 s1 L d.
               \<not> stop_pending t1 \<and> retry s1 \<noteq> 0 \<and> LatestBlock t1 = (Some L, None)
               \<and> D \<le> L - currentBlock s1
               \<and> syncStakeInfos (chain t1) (store s1) (currentBlock s1) = Inr (d, None)
               \<longrightarrow> poll_iteration R D t1 s1 =
                     Inr (Continue
                           (s1\<lparr>currentBlock := currentBlock s1 + 1, retry := R, store := d,
                               trace := trace s1 @ [Processing (currentBlock s1)]\<rparr>)))"
proof -
  let ?s0 = "s\<lparr>retry := 0,
               trace := trace s @ concat (replicate (length fails) [FetchFailed, Slept])\<rparr>"
  from assms have "retry s = int (length fails)" by simp
  from poll_loop_fetch_failures [OF assms(4) this]
  have "poll_loop R D (fails @ t # rest) s = poll_loop R D (t # rest) ?s0" .
  also have "\<dots> =
      (if stop_pending t then Some (Inr (?s0, Some (Error ''polling terminated'')))
       else if stop_send_completes t
       then Some (Inr (?s0\<lparr>trace := trace ?s0 @ [RetriesExceeded, StopSent]\<rparr>, None))
       else None)"
    by (rule poll_loop_exhausted) simp
  finally have first:
    "poll_loop R D (fails @ t # rest) s =
       (if stop_pending t
        then Some (Inr (s\<lparr>retry := 0,
                          trace := trace s @ concat (replicate (nat R) [FetchFailed, Slept])\<rparr>,
                        Some (Error ''polling terminated'')))
        else if stop_send_completes t
        then Some (Inr (s\<lparr>retry := 0,
                          trace := trace s @ concat (replicate (nat R) [FetchFailed, Slept])
                                   @ [RetriesExceeded, StopSent]\<rparr>,
                        None))
        else None)"
    using assms(3) by simp
  show ?thesis
    using first poll_iteration_success_resets by blast
qed

theorem poll_loop_retry_exhaustion_witness:
  "PollBlocks 3 12 1001 example_disk
     (replicate 3
        \<lparr>stop_pending = False, stop_send_completes = True,
         LatestBlock = (None, Some (Error ''connection reset'')), chain = example_listener\<rparr>
      @ [\<lparr>stop_pending = False, stop_send_completes = True, LatestBlock = (Some 5000, None),
          chain = example_listener\<rparr>])
   = Some (Inr (\<lparr>currentBlock = 1001, retry = 0, store = example_disk,
                  trace = [FetchFailed, Slept, FetchFailed, Slept, FetchFailed, Slept,
                           RetriesExceeded, StopSent]\<rparr>, None))
   \<and> poll_iteration 3 12
       \<lparr>stop_pending = False, stop_send_completes = True, LatestBlock = (Some 5000, None),
        chain = example_listener\<rparr>
       \<lparr>currentBlock = 1001, retry = 1, store = example_disk, trace = []\<rparr>
     = Inr (Continue
             \<lparr>currentBlock = 1002, retry = 3, store = example_disk, trace = [Processing 1001]\<rparr>)"
proof -
  let ?f = "\<lparr>stop_pending = False, stop_send_completes = True,
             LatestBlock = (None, Some (Error ''connection reset'')), chain = example_listener\<rparr>"
  let ?t = "\<lparr>stop_pending = False, stop_send_completes = True, LatestBlock = (Some 5000, None),
             chain = example_listener\<rparr>"
  let ?s = "\<lparr>currentBlock = 1001, retry = 3, store = example_disk, trace = []\<rparr>"
  let ?s1 = "\<lparr>currentBlock = 1001, retry = 1, store = example_disk, trace = []\<rparr>"
  have sync: "syncStakeInfos (chain ?t) (store ?s1) (currentBlock ?s1) = Inr (example_disk, None)"
    by (simp add: syncStakeInfos_def example_listener_def Uint64_def)
  have hyps: "(0::int) \<le> 3" "retry ?s = 3" "length (replicate 3 ?f) = nat 3"
    "\<forall>t \<in> set (replicate 3 ?f). \<not> stop_pending t \<and> snd (LatestBlock t) \<noteq> None"
    by simp_all
  note both = poll_loop_retry_exhaustion [OF hyps, of 12 ?t "[]"]
  from both have "poll_loop 3 12 (replicate 3 ?f @ [?t]) ?s =
      Some (Inr (?s\<lparr>retry := 0,
                   trace := trace ?s @ concat (replicate (nat 3) [FetchFailed, Slept])
                            @ [RetriesExceeded, StopSent]\<rparr>, None))"
    by simp
  then have run: "PollBlocks 3 12 1001 example_disk (replicate 3 ?f @ [?t]) =
      Some (Inr (\<lparr>currentBlock = 1001, retry = 0, store = example_disk,
                   trace = [FetchFailed, Slept, FetchFailed, Slept, FetchFailed, Slept,
                            RetriesExceeded, StopSent]\<rparr>, None))"
    by (simp add: PollBlocks_def numeral_3_eq_3)
  from both have
    "\<not> stop_pending ?t \<and> retry ?s1 \<noteq> 0 \<and> LatestBlock ?t = (Some 5000, None)
     \<and> 12 \<le> 5000 - currentBlock ?s1
     \<and> syncStakeInfos (chain ?t) (store ?s1) (currentBlock ?s1) = Inr (example_disk, None)
     \<longrightarrow> poll_iteration 3 12 ?t ?s1 =
           Inr (Continue
                 (?s1\<lparr>currentBlock := currentBlock ?s1 + 1, retry := 3, store := example_disk,
                      trace := trace ?s1 @ [Processing (currentBlock ?s1)]\<rparr>))"
    by blast
  with sync have "poll_iteration 3 12 ?t ?s1 =
      Inr (Continue
            \<lparr>currentBlock = 1002, retry = 3, store = example_disk, trace = [Processing 1001]\<rparr>)"
    by simp
  with run show ?thesis by (rule conjI)
qed

text \<open>
  The claim as stated fails on two runs with a budget of 3 and three failed fetches.
  When the send on \<open>l.Stop\<close> does not complete, the exhausted iteration is left blocked
  after the log and the loop has not returned, however many ticks follow (here two more,
  on which a loop still running would fetch the latest block and process the height).
  When a stop request is pending at the exhausted iteration, the loop returns "polling
  terminated" and the retries are never reported as exceeded.
\<close>

theorem poll_loop_retry_exhaustion_may_block:
  "poll_iteration 3 12
     \<lparr>stop_pending = False, stop_send_completes = False, LatestBlock = (Some 5000, None),
      chain = example_listener\<rparr>
     \<lparr>currentBlock = 1001, retry = 0, store = example_disk,
      trace = [FetchFailed, Slept, FetchFailed, Slept, FetchFailed, Slept]\<rparr>
   = Inr (Blocked
           \<lparr>currentBlock = 1001, retry = 0, store = example_disk,
            trace = [FetchFailed, Slept, FetchFailed, Slept, FetchFailed, Slept,
                     RetriesExceeded]\<rparr>)
   \<and> PollBlocks 3 12 1001 example_disk
       (replicate 3
          \<lparr>stop_pending = False, stop_send_completes = True,
           LatestBlock = (None, Some (Error ''connection reset'')), chain = example_listener\<rparr>
        @ [\<lparr>stop_pending = False, stop_send_completes = False, LatestBlock = (Some 5000, None),
            chain = example_listener\<rparr>,
           \<lparr>stop_pending = False, stop_send_completes = True, LatestBlock = (Some 5000, None),
            chain = example_listener\<rparr>,
           \<lparr>stop_pending = False, stop_send_completes = True, LatestBlock = (Some 5000, None),
            chain = example_listener\<rparr>])
     = None
   \<and> PollBlocks 3 12 1001 example_disk
       (replicate 3
          \<lparr>stop_pending = False, stop_send_completes = True,
           LatestBlock = (None, Some (Error ''connection reset'')), chain = example_listener\<rparr>
        @ [\<lparr>stop_pending = True, stop_send_completes = True, LatestBlock = (Some 5000, None),
            chain = example_listener\<rparr>])
     = Some (Inr (\<lparr>currentBlock = 1001, retry = 0, store = example_disk,
                    trace = [FetchFailed, Slept, FetchFailed, Slept, FetchFailed, Slept]\<rparr>,
                  Some (Error ''polling terminated'')))"
  by (simp add: PollBlocks_def poll_iteration_def numeral_3_eq_3)

subsection \<open>Persistence layer\<close>

lemma ioutil_WriteFile_success:
  assumes "ioutil_WriteFile d file content = (d1, None)"
  shows "d1 = d\<lparr>files := (files d)(file \<mapsto> content), journal := journal d @ [(file, content)]\<rparr>"
  using assms by (auto simp: ioutil_WriteFile_def split: option.splits)

lemma prepare_dir_success:
  assumes "(case os_Stat d file of
              NotExist \<Rightarrow> os_MkdirAll d (Split_dir file)
            | Exists \<Rightarrow> (d, None)
            | StatError e \<Rightarrow> (d, None)) = (d0, None)"
  shows "files d0 = files d \<and> journal d0 = journal d \<and> stat_fault d0 = stat_fault d
         \<and> read_fault d0 = read_fault d \<and> write_fault d0 = write_fault d
         \<and> mkdir_fault d0 = mkdir_fault d"
  using assms by (auto simp: os_MkdirAll_def split: stat.splits option.splits)

lemma WriteStakeInfos_success:
  assumes "WriteStakeInfos c d file infos = (d1, None)"
  shows "\<exists>content. EncodeToBytes c infos = (content, None)
           \<and> files d1 = (files d)(file \<mapsto> content)
           \<and> journal d1 = journal d @ [(file, content)]
           \<and> stat_fault d1 = stat_fault d \<and> read_fault d1 = read_fault d
           \<and> write_fault d1 = write_fault d \<and> mkdir_fault d1 = mkdir_fault d"
proof -
  obtain d0 e0 where prep:
    "(case os_Stat d file of
        NotExist \<Rightarrow> os_MkdirAll d (Split_dir file)
      | Exists \<Rightarrow> (d, None)
      | StatError e \<Rightarrow> (d, None)) = (d0, e0)"
    by (cases "case os_Stat d file of
                 NotExist \<Rightarrow> os_MkdirAll d (Split_dir file)
               | Exists \<Rightarrow> (d, None)
               | StatError e \<Rightarrow> (d, None)") blast
  obtain content e1 where enc: "EncodeToBytes c infos = (content, e1)"
    by (cases "EncodeToBytes c infos") blast
  from assms prep have e0: "e0 = None"
    by (cases e0) (simp_all add: WriteStakeInfos_def)
  from assms prep enc e0 have e1: "e1 = None"
    by (cases e1) (simp_all add: WriteStakeInfos_def)
  from assms prep enc e0 e1 have "ioutil_WriteFile d0 file content = (d1, None)"
    by (simp add: WriteStakeInfos_def)
  then have d1: "d1 = d0\<lparr>files := (files d0)(file \<mapsto> content),
                          journal := journal d0 @ [(file, content)]\<rparr>"
    by (rule ioutil_WriteFile_success)
  from prep e0 have
    "files d0 = files d \<and> journal d0 = journal d \<and> stat_fault d0 = stat_fault d
     \<and> read_fault d0 = read_fault d \<and> write_fault d0 = write_fault d
     \<and> mkdir_fault d0 = mkdir_fault d"
    by (intro prepare_dir_success) simp
  with d1 enc e1 show ?thesis by simp
qed

lemma WriteLatestBlock_success:
  assumes "WriteLatestBlock d file number = (d1, None)"
  shows "files d1 = (files d)(file \<mapsto> big_String number)
         \<and> journal d1 = journal d @ [(file, big_String number)]"
proof -
  obtain d0 e0 where prep:
    "(case os_Stat d file of
        NotExist \<Rightarrow> os_MkdirAll d (Split_dir file)
      | Exists \<Rightarrow> (d, None)
      | StatError e \<Rightarrow> (d, None)) = (d0, e0)"
    by (cases "case os_Stat d file of
                 NotExist \<Rightarrow> os_MkdirAll d (Split_dir file)
               | Exists \<Rightarrow> (d, None)
               | StatError e \<Rightarrow> (d, None)") blast
  from assms prep have e0: "e0 = None"
    by (cases e0) (simp_all add: WriteLatestBlock_def)
  from assms prep e0 have "ioutil_WriteFile d0 file (big_String number) = (d1, None)"
    by (simp add: WriteLatestBlock_def)
  then have d1: "d1 = d0\<lparr>files := (files d0)(file \<mapsto> big_String number),
                          journal := journal d0 @ [(file, big_String number)]\<rparr>"
    by (rule ioutil_WriteFile_success)
  from prep e0 have
    "files d0 = files d \<and> journal d0 = journal d \<and> stat_fault d0 = stat_fault d
     \<and> read_fault d0 = read_fault d \<and> write_fault d0 = write_fault d
     \<and> mkdir_fault d0 = mkdir_fault d"
    by (intro prepare_dir_success) simp
  with d1 show ?thesis by simp
qed

text \<open>
  C8 (round trip of the snapshot file). After a successful \<open>WriteStakeInfos\<close> of \<open>S\<close>,
  \<open>ReadStakeInfos\<close> of the same file returns \<open>S\<close> and no error. What the theorem asks of
  the world outside the two functions: the serializer decodes what it encoded for \<open>S\<close>,
  its encoding is not the empty byte string (RLP never is), and neither \<open>os.Stat\<close> nor
  \<open>ioutil.ReadFile\<close> fails on the file.
\<close>

theorem WriteStakeInfos_ReadStakeInfos_roundtrip:
  assumes "WriteStakeInfos c d file S = (d1, None)"
    and "DecodeBytes c (fst (EncodeToBytes c S)) = (S, None)"
    and "fst (EncodeToBytes c S) \<noteq> []"
    and "stat_fault d file = None" and "read_fault d file = None"
  shows "ReadStakeInfos c d1 file = (S, None)"
proof -
  from WriteStakeInfos_success [OF assms(1)] obtain content where
    enc: "EncodeToBytes c S = (content, None)"
    and d1: "files d1 = (files d)(file \<mapsto> content)"
      "stat_fault d1 = stat_fault d" "read_fault d1 = read_fault d"
    by blast
  from d1 assms(4) have "fileExists d1 file = (True, None)"
    by (simp add: fileExists_def os_Stat_def)
  moreover from d1 assms(5) have "ioutil_ReadFile d1 file = (content, None)"
    by (simp add: ioutil_ReadFile_def)
  moreover from enc assms(2,3) have "content \<noteq> []" "DecodeBytes c content = (S, None)"
    by simp_all
  ultimately show ?thesis
    by (simp add: ReadStakeInfos_def)
qed


theorem WriteStakeInfos_ReadStakeInfos_roundtrip_witness:
  "ReadStakeInfos rlp_codec
     (fst (WriteStakeInfos rlp_codec example_disk ''/data/stake_infos''
        [\<lparr>Coinbase = replicate 20 1 @ replicate 12 0, WorkBase = replicate 20 1,
          IsWork = True, LockedBalance = 700, WorkCount = 0\<rparr>,
         \<lparr>Coinbase = replicate 20 2 @ replicate 12 0, WorkBase = replicate 20 2,
          IsWork = True, LockedBalance = 500, WorkCount = 0\<rparr>,
         \<lparr>Coinbase = replicate 20 3 @ replicate 12 0, WorkBase = replicate 20 3,
          IsWork = False, LockedBalance = 500, WorkCount = 0\<rparr>]))
     ''/data/stake_infos''
   = ([\<lparr>Coinbase = replicate 20 1 @ replicate 12 0, WorkBase = replicate 20 1,
        IsWork = True, LockedBalance = 700, WorkCount = 0\<rparr>,
       \<lparr>Coinbase = replicate 20 2 @ replicate 12 0, WorkBase = replicate 20 2,
        IsWork = True, LockedBalance = 500, WorkCount = 0\<rparr>,
       \<lparr>Coinbase = replicate 20 3 @ replicate 12 0, WorkBase = replicate 20 3,
        IsWork = False, LockedBalance = 500, WorkCount = 0\<rparr>], None)
   \<and> ReadStakeInfos rlp_codec
       (fst (WriteStakeInfos rlp_codec example_disk ''/data/stake_infos'' []))
       ''/data/stake_infos''
     = ([], None)"
proof -
  let ?f = "''/data/stake_infos''"
  let ?S = "[\<lparr>Coinbase = replicate 20 1 @ replicate 12 0, WorkBase = replicate 20 1,
               IsWork = True, LockedBalance = 700, WorkCount = 0\<rparr>,
             \<lparr>Coinbase = replicate 20 2 @ replicate 12 0, WorkBase = replicate 20 2,
               IsWork = True, LockedBalance = 500, WorkCount = 0\<rparr>,
             \<lparr>Coinbase = replicate 20 3 @ replicate 12 0, WorkBase = replicate 20 3,
               IsWork = False, LockedBalance = 500, WorkCount = 0\<rparr>]"
  have faults: "stat_fault example_disk ?f = None" "read_fault example_disk ?f = None"
    by (simp_all add: example_disk_def)
  have "snd (WriteStakeInfos rlp_codec example_disk ?f ?S) = None"
    by code_simp
  then have w1: "WriteStakeInfos rlp_codec example_disk ?f ?S =
                 (fst (WriteStakeInfos rlp_codec example_disk ?f ?S), None)"
    by (metis prod.collapse)
  have dec1: "DecodeBytes rlp_codec (fst (EncodeToBytes rlp_codec ?S)) = (?S, None)"
    by code_simp
  have ne1: "fst (EncodeToBytes rlp_codec ?S) \<noteq> []"
    by code_simp
  have "snd (WriteStakeInfos rlp_codec example_disk ?f []) = None"
    by code_simp
  then have w0: "WriteStakeInfos rlp_codec example_disk ?f [] =
                 (fst (WriteStakeInfos rlp_codec example_disk ?f []), None)"
    by (metis prod.collapse)
  have dec0: "DecodeBytes rlp_codec (fst (EncodeToBytes rlp_codec [])) = ([], None)"
    by code_simp
  have ne0: "fst (EncodeToBytes rlp_codec []) \<noteq> []"
    by code_simp
  show ?thesis
    using WriteStakeInfos_ReadStakeInfos_roundtrip [OF w1 dec1 ne1 faults]
      WriteStakeInfos_ReadStakeInfos_roundtrip [OF w0 dec0 ne0 faults]
    by (rule conjI)
qed

subsection \<open>Epoch synchronizer: the order of the commit\<close>

text \<open>
  Whatever its outcome, a call of \<open>syncStakeInfos\<close> adds to the journal of writes
  nothing, or the snapshot file alone (and then the call returned an error), or the
  snapshot file followed by the cursor file (and then it returned nil). The cursor file is
  never written unless the snapshot file was written just before it.
\<close>

lemma WriteStakeInfos_journal:
  assumes "WriteStakeInfos c d file infos = (d1, e)"
  shows "(e \<noteq> None \<and> journal d1 = journal d)
       \<or> (e = None \<and> (\<exists>content. journal d1 = journal d @ [(file, content)]))"
  using assms
  by (auto simp: WriteStakeInfos_def os_MkdirAll_def ioutil_WriteFile_def
           split: stat.splits option.splits prod.splits; metis)

lemma WriteLatestBlock_journal:
  assumes "WriteLatestBlock d file number = (d1, e)"
  shows "(e \<noteq> None \<and> journal d1 = journal d)
       \<or> (e = None \<and> journal d1 = journal d @ [(file, big_String number)])"
  using assms
  by (auto simp: WriteLatestBlock_def os_MkdirAll_def ioutil_WriteFile_def
           split: stat.splits option.splits prod.splits; metis)

lemma syncStakeInfos_journal_shapes:
  assumes "syncStakeInfos l d latestBlock = Inr (d2, e)"
  shows "journal d2 = journal d
       \<or> (e \<noteq> None \<and> (\<exists>content. journal d2 = journal d @ [(LastStakeInfoPath l, content)]))
       \<or> (e = None \<and> (\<exists>content. journal d2 =
              journal d @ [(LastStakeInfoPath l, content),
                           (LatestBlockPath l, big_String latestBlock)]))"
proof (cases "\<exists>stakeInfos d1 e1.
                WriteStakeInfos (rlp l) d (LastStakeInfoPath l) (LockedBalanceTop20 stakeInfos)
                  = (d1, e1)
              \<and> (e1 \<noteq> None \<and> d2 = d1 \<and> e = e1
                 \<or> e1 = None \<and> WriteLatestBlock d1 (LatestBlockPath l) latestBlock = (d2, e))")
  case True
  then obtain stakeInfos d1 e1 where
    w: "WriteStakeInfos (rlp l) d (LastStakeInfoPath l) (LockedBalanceTop20 stakeInfos) = (d1, e1)"
    and r: "e1 \<noteq> None \<and> d2 = d1 \<and> e = e1
            \<or> e1 = None \<and> WriteLatestBlock d1 (LatestBlockPath l) latestBlock = (d2, e)"
    by blast
  from WriteStakeInfos_journal [OF w] r show ?thesis
    using WriteLatestBlock_journal [of d1 "LatestBlockPath l" latestBlock d2 e]
    by (cases e) auto
next
  case False
  with assms have "d2 = d"
    by (auto simp: syncStakeInfos_def split: if_splits sum.splits prod.splits option.splits)
  then show ?thesis by simp
qed

text \<open>
  C4 (snapshot before cursor). A call of \<open>syncStakeInfos\<close> at an epoch boundary that
  returns nil went through a disk \<open>d1\<close> in which the snapshot file holds the new ranked
  snapshot and the cursor file is still what it was before the call; the cursor was
  written on \<open>d1\<close>. The journal of writes ends with the snapshot file followed by the
  cursor file: these two writes and no others, in that order.
\<close>

theorem syncStakeInfos_commit_order:
  assumes "syncStakeInfos l d latestBlock = Inr (d2, None)"
    and "EpochLength l \<noteq> 0" and "Uint64 latestBlock mod EpochLength l = 0"
    and "LastStakeInfoPath l \<noteq> LatestBlockPath l"
  shows "\<exists>stakeInfos content d1.
           GetStakeInfo (nucypher l) = Inr (stakeInfos, None)
         \<and> EncodeToBytes (rlp l) (LockedBalanceTop20 stakeInfos) = (content, None)
         \<and> WriteStakeInfos (rlp l) d (LastStakeInfoPath l) (LockedBalanceTop20 stakeInfos)
             = (d1, None)
         \<and> WriteLatestBlock d1 (LatestBlockPath l) latestBlock = (d2, None)
         \<and> journal d1 = journal d @ [(LastStakeInfoPath l, content)]
         \<and> files d1 (LastStakeInfoPath l) = Some content
         \<and> files d1 (LatestBlockPath l) = files d (LatestBlockPath l)
         \<and> journal d2 = journal d @ [(LastStakeInfoPath l, content),
                                      (LatestBlockPath l, big_String latestBlock)]
         \<and> files d2 (LastStakeInfoPath l) = Some content
         \<and> files d2 (LatestBlockPath l) = Some (big_String latestBlock)"
proof -
  from assms(1-3) obtain stakeInfos d1 where
    built: "GetStakeInfo (nucypher l) = Inr (stakeInfos, None)"
    and snap: "WriteStakeInfos (rlp l) d (LastStakeInfoPath l) (LockedBalanceTop20 stakeInfos)
               = (d1, None)"
    and cur: "WriteLatestBlock d1 (LatestBlockPath l) latestBlock = (d2, None)"
    by (auto simp: syncStakeInfos_def split: sum.splits prod.splits option.splits)
  from WriteStakeInfos_success [OF snap] obtain content where
    enc: "EncodeToBytes (rlp l) (LockedBalanceTop20 stakeInfos) = (content, None)"
    and f1: "files d1 = (files d)(LastStakeInfoPath l \<mapsto> content)"
    and j1: "journal d1 = journal d @ [(LastStakeInfoPath l, content)]"
    by blast
  from WriteLatestBlock_success [OF cur] have
    f2: "files d2 = (files d1)(LatestBlockPath l \<mapsto> big_String latestBlock)"
    and j2: "journal d2 = journal d1 @ [(LatestBlockPath l, big_String latestBlock)]"
    by simp_all
  from f1 assms(4) have "files d1 (LastStakeInfoPath l) = Some content"
    "files d1 (LatestBlockPath l) = files d (LatestBlockPath l)"
    by simp_all
  moreover from f1 f2 assms(4) have "files d2 (LastStakeInfoPath l) = Some content"
    "files d2 (LatestBlockPath l) = Some (big_String latestBlock)"
    by simp_all
  moreover from j1 j2 have
    "journal d2 = journal d @ [(LastStakeInfoPath l, content),
                               (LatestBlockPath l, big_String latestBlock)]"
    by simp
  ultimately show ?thesis
    using built enc snap cur j1 by blast
qed

theorem syncStakeInfos_commit_order_witness:
  "\<exists>d1 d2 content.
     syncStakeInfos example_listener example_disk 1000 = Inr (d2, None)
   \<and> WriteLatestBlock d1 ''/data/latest_block'' 1000 = (d2, None)
   \<and> files d1 ''/data/stake_infos'' = Some content
   \<and> files d1 ''/data/latest_block'' = None
   \<and> journal d2 = [(''/data/stake_infos'', content), (''/data/latest_block'', [49, 48, 48, 48])]"
proof -
  have "(case syncStakeInfos example_listener example_disk 1000 of
           Inr (d2, None) \<Rightarrow> True | _ \<Rightarrow> False)"
    by code_simp
  then obtain d2 where run: "syncStakeInfos example_listener example_disk 1000 = Inr (d2, None)"
    by (auto split: sum.splits prod.splits option.splits)
  have h2: "EpochLength example_listener \<noteq> 0"
    by (simp add: example_listener_def)
  have h3: "Uint64 1000 mod EpochLength example_listener = 0"
    by (simp add: example_listener_def Uint64_def)
  have h4: "LastStakeInfoPath example_listener \<noteq> LatestBlockPath example_listener"
    by (simp add: example_listener_def)
  have paths: "LastStakeInfoPath example_listener = ''/data/stake_infos''"
    "LatestBlockPath example_listener = ''/data/latest_block''"
    by (simp_all add: example_listener_def)
  have before: "files example_disk ''/data/latest_block'' = None" "journal example_disk = []"
    by (simp_all add: example_disk_def)
  have digits: "big_String 1000 = [49, 48, 48, 48]"
    by (simp add: big_String_def decimal.simps)
  from syncStakeInfos_commit_order [OF run h2 h3 h4] show ?thesis
    unfolding paths before digits using run by auto
qed

end
